theory Spec2Isabelle
  imports Main "HOL-Library.Char_ord" "HOL-Library.List_Lexorder" "HOL-Library.Multiset"
begin

section \<open>The BQML-to-Google-Analytics pipeline (bqml/pipeline/main.py)\<close>

text \<open>
  The pipeline reads prediction rows from BigQuery and writes them to Google Analytics,
  either by data import (\<open>di\<close>) or through the Measurement Protocol (\<open>mp\<close>), and
  reports the outcome of the run to a log table and by e-mail.

  Python text is modelled as \<open>string\<close>, the list of its UTF-8 bytes: comparing two texts
  code point by code point is comparing their UTF-8 bytes, and \<open>.encode("utf-8")\<close> is
  the identity on this representation. A scalar value of a row or of the default hit
  details is identified with the text \<open>str\<close> gives for it, so \<open>str\<close> is the identity too,
  and such a value is true (in \<open>if value\<close>) exactly when its text is not empty.
\<close>

subsection \<open>Exceptions, effects and the world outside\<close>

text \<open>
  An exception carries its class name and the text \<open>str(e)\<close>. Every exception of the
  model is an instance of \<open>Exception\<close>, which is what \<open>except Exception\<close> catches.
\<close>

datatype pyexn = PyExn (exn_class: string) (exn_str: string)

text \<open>A dict is the list of its items in insertion order; its keys are distinct.\<close>

type_synonym pydict = "(string \<times> string) list"

text \<open>
  A row of the dataframe, as \<open>iteritems\<close> goes through it: column name and value, in
  column order.
\<close>

type_synonym row = "(string \<times> string) list"

type_synonym dataframe = "row list"

text \<open>
  What a run has done so far: the lines printed, the payloads POSTed to the Measurement
  Protocol endpoint, the calls of \<open>write_to_bq_logs\<close> (status, message), the calls of
  \<open>send_email\<close> (error message) and the steps of the data import path.
\<close>

record effects =
  printed :: "string list"
  posted :: "string list"
  logged :: "(string \<times> string) list"
  mailed :: "string list"
  di_steps :: "string list"

definition no_effects :: effects where
  "no_effects = \<lparr>printed = [], posted = [], logged = [], mailed = [], di_steps = []\<rparr>"

text \<open>
  The configuration (module \<open>params\<close>, which main.py imports) and the answers of the
  services the run talks to. \<open>mp_response k\<close> is what the \<open>k\<close>-th POST of the run (counted
  from 0) meets: a status code, or the exception of a transport fault. \<open>write_to_bq_logs\<close>
  and \<open>send_email\<close> are wrapped by the \<open>retry\<close> decorator of the package \<open>retrying\<close>;
  \<open>bq_log status message\<close> and \<open>sendgrid message\<close> are the outcome of the whole decorated
  call: \<open>None\<close> when it returns, \<open>Some e\<close> when it ends by raising \<open>e\<close>.
\<close>

record world =
  GA_IMPORT_METHOD :: string
  GA_MP_STANDARD_HIT_DETAILS :: pydict
  ENABLED_LOGGING :: bool
  ENABLED_EMAIL :: bool
  now :: string
  bq_query :: "pyexn + dataframe"
  csv_write :: "pyexn option"
  ga_authorize :: "pyexn option"
  ga_upload :: "pyexn option"
  ga_delete_uploads :: "pyexn option"
  mp_response :: "nat \<Rightarrow> pyexn + int"
  bq_log :: "string \<Rightarrow> string \<Rightarrow> pyexn option"
  sendgrid :: "string \<Rightarrow> pyexn option"

definition GA_MP_ENDPOINT :: string where
  "GA_MP_ENDPOINT = ''https://www.google-analytics.com/batch''"

definition print :: "string \<Rightarrow> effects \<Rightarrow> effects" where
  "print line s = s\<lparr>printed := printed s @ [line]\<rparr>"

subsection \<open>Python helpers\<close>

text \<open>\<open>d[k] = v\<close>: a key already there keeps its place and takes the new value.\<close>

fun dict_set :: "pydict \<Rightarrow> string \<Rightarrow> string \<Rightarrow> pydict" where
  "dict_set [] k v = [(k, v)]"
| "dict_set ((k', v') # d) k v =
     (if k' = k then (k, v) # d else (k', v') # dict_set d k v)"

text \<open>\<open>sep.join(xs)\<close>.\<close>

fun str_join :: "string \<Rightarrow> string list \<Rightarrow> string" where
  "str_join sep [] = []"
| "str_join sep [x] = x"
| "str_join sep (x # y # ys) = x @ sep @ str_join sep (y # ys)"

text \<open>\<open>str(n)\<close> for an integer: decimal digits, a minus sign for a negative one.\<close>

definition digit_char :: "nat \<Rightarrow> char" where
  "digit_char n = ''0123456789'' ! n"

fun str_nat :: "nat \<Rightarrow> string" where
  "str_nat n = (if n < 10 then [digit_char n] else str_nat (n div 10) @ [digit_char (n mod 10)])"

declare str_nat.simps [simp del]

definition str_int :: "int \<Rightarrow> string" where
  "str_int i = (if i < 0 then CHR ''-'' # str_nat (nat (- i)) else str_nat (nat i))"

text \<open>\<open>x in range(start, stop)\<close> for an integer \<open>x\<close>.\<close>

definition in_range :: "int \<Rightarrow> int \<Rightarrow> int \<Rightarrow> bool" where
  "in_range x start stop \<longleftrightarrow> start \<le> x \<and> x < stop"

text \<open>
  Modelled from the spec: \<open>urllib.parse.urlencode\<close> belongs to the Python standard
  library, not to the repository. It is the standard URL form encoding of a list of
  pairs, \<open>k1=v1&k2=v2\<close>, each key and value quoted by \<open>quote_plus\<close>: letters, digits and
  \<open>_.-~\<close> stay, a space becomes \<open>+\<close>, any other byte becomes \<open>%XX\<close>.
\<close>

definition always_safe :: "char \<Rightarrow> bool" where
  "always_safe c \<longleftrightarrow>
     c \<in> set ''ABCDEFGHIJKLMNOPQRSTUVWXYZabcdefghijklmnopqrstuvwxyz0123456789_.-~''"

definition hex_digit :: "nat \<Rightarrow> char" where
  "hex_digit n = ''0123456789ABCDEF'' ! n"

definition quote_byte :: "char \<Rightarrow> string" where
  "quote_byte c =
     (if always_safe c then [c]
      else if c = CHR '' '' then ''+''
      else [CHR ''%'', hex_digit (of_char c div 16), hex_digit (of_char c mod 16)])"

definition quote_plus :: "string \<Rightarrow> string" where
  "quote_plus s = concat (map quote_byte s)"

definition urlencode :: "(string \<times> string) list \<Rightarrow> string" where
  "urlencode query =
     str_join ''&'' (map (\<lambda>(k, v). quote_plus k @ ''='' @ quote_plus v) query)"

subsection \<open>prepare_payloads_for_batch_request\<close>

text \<open>
  The inner expression of line 189 for one payload \<open>p\<close>:
  \<open>sorted([(k, str(p[k]).encode("utf-8")) for k in p], key=lambda t: t[0])\<close>.
  \<open>sort_key\<close> is stable, as \<open>sorted\<close> is.
\<close>

definition sorted_items :: "pydict \<Rightarrow> (string \<times> string) list" where
  "sorted_items p = sort_key fst (map (\<lambda>k. (k, the (map_of p k))) (map fst p))"

definition prepare_payloads_for_batch_request :: "pydict list \<Rightarrow> string" where
  "prepare_payloads_for_batch_request payloads =
     (let payloads_utf8 = map sorted_items payloads
      in str_join [CHR 0x0A] (map urlencode payloads_utf8))"

subsection \<open>send_mp_hit\<close>

text \<open>
  One POST of a payload. A transport fault is the exception \<open>Session().send\<close> raises; it
  leaves \<open>send_mp_hit\<close> as it is. Otherwise the payload is appended to one of the two
  lists, which are returned.
\<close>

definition send_mp_hit ::
  "world \<Rightarrow> string \<Rightarrow> string list \<Rightarrow> string list \<Rightarrow> effects
     \<Rightarrow> (pyexn + string list \<times> string list) \<times> effects" where
  "send_mp_hit w payload_send success_requests failed_requests s =
     (let s1 = print (''Sending measurement protcol request to url '' @ GA_MP_ENDPOINT) s;
          s2 = s1\<lparr>posted := posted s1 @ [payload_send]\<rparr>
      in case mp_response w (length (posted s)) of
           Inl e \<Rightarrow> (Inl e, s2)
         | Inr status_code \<Rightarrow>
             if \<not> in_range status_code 200 299
             then (Inr (success_requests, failed_requests @ [payload_send]),
                   print (''Measurement Protocol submission unsuccessful status code: ''
                            @ str_int status_code) s2)
             else (Inr (success_requests @ [payload_send], failed_requests),
                   print (''Measurement Protocol submission status code: ''
                            @ str_int status_code) s2))"

subsection \<open>write_to_ga_via_mp\<close>

text \<open>Lines 205 to 212: the hit of one row.\<close>

definition standard_hit_data :: "pydict \<Rightarrow> pydict" where
  "standard_hit_data details =
     fold (\<lambda>(ga_key, value) hit_data.
             if value \<noteq> [] then dict_set hit_data ga_key value else hit_data) details []"

definition hit_of_row :: "pydict \<Rightarrow> row \<Rightarrow> pydict" where
  "hit_of_row details bq_results_row =
     fold (\<lambda>(column_name, column_value) hit_data.
             dict_set hit_data column_name column_value)
          bq_results_row (standard_hit_data details)"

text \<open>
  The grouping that the loop of lines 200 to 233 does, without the sending: the counter
  \<open>i\<close>, the list \<open>payload_list\<close>, a batch handed over when \<open>i % 20 == 0\<close>, and the last
  batch when \<open>i > 0\<close> after the loop.
\<close>

fun accumulate :: "'a list \<Rightarrow> nat \<Rightarrow> 'a list \<Rightarrow> 'a list list" where
  "accumulate [] i payload_list = (if i > 0 then [payload_list] else [])"
| "accumulate (hit_data # rest) i payload_list =
     (let i = i + 1;
          payload_list = payload_list @ [hit_data]
      in if i mod 20 = 0 then payload_list # accumulate rest 0 []
         else accumulate rest i payload_list)"

definition mp_batches :: "'a list \<Rightarrow> 'a list list" where
  "mp_batches hits = accumulate hits 0 []"

text \<open>The loop of lines 203 to 224, with the sending.\<close>

fun mp_loop ::
  "world \<Rightarrow> dataframe \<Rightarrow> nat \<Rightarrow> pydict list \<Rightarrow> string list \<Rightarrow> string list \<Rightarrow> effects
     \<Rightarrow> (pyexn + nat \<times> pydict list \<times> string list \<times> string list) \<times> effects" where
  "mp_loop w [] i payload_list success_requests failed_requests s =
     (Inr (i, payload_list, success_requests, failed_requests), s)"
| "mp_loop w (bq_results_row # rest) i payload_list success_requests failed_requests s =
     (let i = i + 1;
          hit_data = hit_of_row (GA_MP_STANDARD_HIT_DETAILS w) bq_results_row;
          payload_list = payload_list @ [hit_data]
      in if i mod 20 = 0
         then (let payload_send = prepare_payloads_for_batch_request payload_list;
                   s1 = print (''Payload to send: '' @ payload_send) s
               in case send_mp_hit w payload_send success_requests failed_requests s1 of
                    (Inl e, s2) \<Rightarrow> (Inl e, s2)
                  | (Inr (success_requests, failed_requests), s2) \<Rightarrow>
                      mp_loop w rest 0 [] success_requests failed_requests s2)
         else mp_loop w rest i payload_list success_requests failed_requests s)"


text \<open>
  Lines 226 to 233, from the state the loop ends in: the last batch call, when \<open>i > 0\<close>.
  An exception raised in the loop has left the function already.
\<close>

definition last_batch_call ::
  "world \<Rightarrow> (pyexn + nat \<times> pydict list \<times> string list \<times> string list) \<times> effects
     \<Rightarrow> (pyexn + string list \<times> string list) \<times> effects" where
  "last_batch_call w r =
     (case r of
        (Inl e, s1) \<Rightarrow> (Inl e, s1)
      | (Inr (i, payload_list, success_requests, failed_requests), s1) \<Rightarrow>
          if i > 0
          then (let s2 = print ''Sending remaining items to GA'' s1;
                    payload_send = prepare_payloads_for_batch_request payload_list;
                    s3 = print (''Payload to send: '' @ payload_send) s2
                in send_mp_hit w payload_send success_requests failed_requests s3)
          else (Inr (success_requests, failed_requests), s1))"

text \<open>Lines 200 to 233: the loop and the last batch call.\<close>

definition mp_submit_all ::
  "world \<Rightarrow> dataframe \<Rightarrow> effects \<Rightarrow> (pyexn + string list \<times> string list) \<times> effects" where
  "mp_submit_all w df s = last_batch_call w (mp_loop w df 0 [] [] [] s)"

text \<open>
  Line 239 adds a list to a text, \<open>"Failed request details: " + failed_requests\<close>, which
  in Python raises \<open>TypeError\<close> whatever the list holds. The text of the exception is the
  one of CPython 3.7 and later.
\<close>

definition str_plus_list_error :: pyexn where
  "str_plus_list_error =
     PyExn ''TypeError''
       (''can only concatenate str (not '' @ [CHR 0x22] @ ''list'' @ [CHR 0x22] @ '') to str'')"

definition report_line :: "string list \<Rightarrow> string list \<Rightarrow> string" where
  "report_line success_requests failed_requests =
     ''Completed all GA calls. Total successful batches:  ''
       @ str_nat (length success_requests) @ '' and failed batches: ''
       @ str_nat (length failed_requests)"

definition write_to_ga_via_mp :: "world \<Rightarrow> dataframe \<Rightarrow> effects \<Rightarrow> pyexn option \<times> effects" where
  "write_to_ga_via_mp w df s =
     (case mp_submit_all w df s of
        (Inl e, s1) \<Rightarrow> (Some e, s1)
      | (Inr (success_requests, failed_requests), s1) \<Rightarrow>
          (let s2 = print (report_line success_requests failed_requests) s1
           in if failed_requests \<noteq> [] then (Some str_plus_list_error, s2)
              else (None, s2)))"

subsection \<open>The other steps of a run\<close>

text \<open>
  \<open>read_from_bq\<close>: the dataframe of the query, its column names with \<open>_\<close> turned into
  \<open>:\<close> when the method is \<open>di\<close>.
\<close>

definition read_from_bq :: "world \<Rightarrow> effects \<Rightarrow> (pyexn + dataframe) \<times> effects" where
  "read_from_bq w s =
     (case bq_query w of
        Inl e \<Rightarrow> (Inl e, s)
      | Inr dataframe \<Rightarrow>
          if GA_IMPORT_METHOD w = ''di''
          then (Inr (map (map (\<lambda>(col_name, v).
                        (map (\<lambda>c. if c = CHR ''_'' then CHR '':'' else c) col_name, v)))
                      dataframe), s)
          else (Inr dataframe, s))"

text \<open>
  The data import path, lines 299 to 302: four calls of outside services, each of which
  returns or raises.
\<close>

definition di_step :: "string \<Rightarrow> pyexn option \<Rightarrow> effects \<Rightarrow> pyexn option \<times> effects" where
  "di_step name answer s = (answer, s\<lparr>di_steps := di_steps s @ [name]\<rparr>)"

definition write_to_ga_di_path :: "world \<Rightarrow> effects \<Rightarrow> pyexn option \<times> effects" where
  "write_to_ga_di_path w s =
     (case di_step ''write_df_to_csv'' (csv_write w) s of
        (Some e, s1) \<Rightarrow> (Some e, s1)
      | (None, s1) \<Rightarrow>
     (case di_step ''authorize_ga_api'' (ga_authorize w) s1 of
        (Some e, s2) \<Rightarrow> (Some e, s2)
      | (None, s2) \<Rightarrow>
     (case di_step ''write_to_ga_via_di'' (ga_upload w) s2 of
        (Some e, s3) \<Rightarrow> (Some e, s3)
      | (None, s3) \<Rightarrow> di_step ''delete_ga_prev_uploads'' (ga_delete_uploads w) s3)))"

definition write_to_bq_logs :: "world \<Rightarrow> string \<Rightarrow> string \<Rightarrow> effects \<Rightarrow> pyexn option \<times> effects" where
  "write_to_bq_logs w status message s =
     (bq_log w status message, s\<lparr>logged := logged s @ [(status, message)]\<rparr>)"

definition send_email :: "world \<Rightarrow> string \<Rightarrow> effects \<Rightarrow> pyexn option \<times> effects" where
  "send_email w error_message s =
     (sendgrid w error_message, s\<lparr>mailed := mailed s @ [error_message]\<rparr>)"

subsection \<open>trigger_workflow\<close>

text \<open>Lines 297 to 306: the read and the dispatch on the import method.\<close>

definition transform_and_submit :: "world \<Rightarrow> effects \<Rightarrow> pyexn option \<times> effects" where
  "transform_and_submit w s =
     (case read_from_bq w s of
        (Inl e, s1) \<Rightarrow> (Some e, s1)
      | (Inr df, s1) \<Rightarrow>
          if GA_IMPORT_METHOD w = ''di'' then write_to_ga_di_path w s1
          else if GA_IMPORT_METHOD w = ''mp'' then write_to_ga_via_mp w df s1
          else (Some (PyExn ''Exception'' ''GA Export Method not found.''), s1))"

text \<open>The body of the \<open>try\<close>, lines 297 to 310: \<open>Inr\<close> is the message returned.\<close>

definition try_body :: "world \<Rightarrow> effects \<Rightarrow> (pyexn + string) \<times> effects" where
  "try_body w s =
     (case transform_and_submit w s of
        (Some e, s1) \<Rightarrow> (Inl e, s1)
      | (None, s1) \<Rightarrow>
          (case (if ENABLED_LOGGING w then write_to_bq_logs w ''SUCCESS'' [] s1
                 else (None, s1)) of
             (Some e, s2) \<Rightarrow> (Inl e, s2)
           | (None, s2) \<Rightarrow> (Inr (now w @ '',SUCCESS''), s2)))"

text \<open>A call ends by returning a value or by an exception that leaves it.\<close>

datatype outcome = Returned string | Raised pyexn

definition trigger_workflow :: "world \<Rightarrow> outcome \<times> effects" where
  "trigger_workflow w =
     (case try_body w no_effects of
        (Inr message, s) \<Rightarrow> (Returned message, s)
      | (Inl e, s) \<Rightarrow>
          (case (if ENABLED_LOGGING w then write_to_bq_logs w ''ERROR'' (exn_str e) s
                 else (None, s)) of
             (Some e1, s1) \<Rightarrow> (Raised e1, s1)
           | (None, s1) \<Rightarrow>
               (case (if ENABLED_EMAIL w then send_email w (exn_str e) s1
                      else (None, s1)) of
                  (Some e2, s2) \<Rightarrow> (Raised e2, s2)
                | (None, s2) \<Rightarrow> (Returned (now w @ '',ERROR,'' @ exn_str e), s2))))"

subsection \<open>Example runs\<close>

text \<open>
  A world in which everything works: the method is \<open>mp\<close>, logging and e-mail are off,
  the query gives no row and every POST is answered with status 200. The examples
  below change it field by field.
\<close>

definition example_world :: world where
  "example_world =
     \<lparr>GA_IMPORT_METHOD = ''mp'',
      GA_MP_STANDARD_HIT_DETAILS = [(''v'', ''1''), (''t'', ''event''), (''ec'', '''')],
      ENABLED_LOGGING = False,
      ENABLED_EMAIL = False,
      now = ''2020-06-01 12:00:00'',
      bq_query = Inr [],
      csv_write = None,
      ga_authorize = None,
      ga_upload = None,
      ga_delete_uploads = None,
      mp_response = (\<lambda>k. Inr 200),
      bq_log = (\<lambda>status message. None),
      sendgrid = (\<lambda>error_message. None)\<rparr>"

text \<open>45 rows, and the second POST answered with status 500.\<close>

definition failing_world :: world where
  "failing_world =
     example_world
       \<lparr>GA_MP_STANDARD_HIT_DETAILS := [(''v'', ''1'')],
        bq_query := Inr (replicate 45 [(''cid'', ''7'')]),
        mp_response := (\<lambda>k. if k = 1 then Inr 500 else Inr 200)\<rparr>"

text \<open>The same 45 rows, and the second POST ending in a transport fault.\<close>

definition fault_world :: world where
  "fault_world =
     failing_world
       \<lparr>mp_response := (\<lambda>k. if k = 1 then Inl (PyExn ''ConnectionError'' ''Connection reset'')
                              else Inr 200)\<rparr>"

text \<open>An import method that is neither \<open>di\<close> nor \<open>mp\<close>.\<close>

definition unknown_method_world :: world where
  "unknown_method_world = example_world\<lparr>GA_IMPORT_METHOD := ''ftp''\<rparr>"

text \<open>
  The unknown method, with logging and e-mail on and every log write ending in an
  exception.
\<close>

definition log_down_world :: world where
  "log_down_world =
     unknown_method_world
       \<lparr>ENABLED_LOGGING := True,
        ENABLED_EMAIL := True,
        bq_log := (\<lambda>status message. Some (PyExn ''GoogleAPIError'' ''log table not reachable''))\<rparr>"

text \<open>The unknown method, with the query raising.\<close>

definition query_down_world :: world where
  "query_down_world =
     unknown_method_world\<lparr>bq_query := Inl (PyExn ''GoogleAPIError'' ''query failed'')\<rparr>"

text \<open>
  The unknown method, with logging and e-mail on, the log writes working and the e-mail
  ending in an exception.
\<close>

definition email_down_world :: world where
  "email_down_world =
     unknown_method_world
       \<lparr>ENABLED_LOGGING := True,
        ENABLED_EMAIL := True,
        sendgrid := (\<lambda>error_message. Some (PyExn ''Exception'' ''Email not sent.''))\<rparr>"

text \<open>
  Method \<open>mp\<close> and no row, logging and e-mail on: the log write of a success ends in an
  exception, the log write of an error works.
\<close>

definition success_log_down_world :: world where
  "success_log_down_world =
     example_world
       \<lparr>ENABLED_LOGGING := True,
        ENABLED_EMAIL := True,
        bq_log := (\<lambda>status message.
                     if status = ''SUCCESS''
                     then Some (PyExn ''GoogleAPIError'' ''log table not reachable'')
                     else None)\<rparr>"

text \<open>Method \<open>mp\<close> and no row, logging and e-mail on, every log write ending in an exception.\<close>

definition all_logs_down_world :: world where
  "all_logs_down_world =
     example_world
       \<lparr>ENABLED_LOGGING := True,
        ENABLED_EMAIL := True,
        bq_log := (\<lambda>status message. Some (PyExn ''GoogleAPIError'' ''log table not reachable''))\<rparr>"

subsection \<open>Sizes of the batches\<close>

text \<open>
  The sizes expected of the batches of \<open>n\<close> hits: as many batches of 20 as fit, then the
  rest when there is one.
\<close>

definition batch_sizes :: "nat \<Rightarrow> nat list" where
  "batch_sizes n = replicate (n div 20) 20 @ (if 0 < n mod 20 then [n mod 20] else [])"

section \<open>Properties\<close>

subsection \<open>Dicts\<close>

lemma map_of_dict_set: "map_of (dict_set d k v) = (map_of d)(k \<mapsto> v)"
  by (induction d k v rule: dict_set.induct) auto

lemma keys_dict_set: "fst ` set (dict_set d k v) = insert k (fst ` set d)"
  by (induction d k v rule: dict_set.induct) auto

lemma distinct_dict_set: "distinct (map fst d) \<Longrightarrow> distinct (map fst (dict_set d k v))"
proof (induction d k v rule: dict_set.induct)
  case (1 k v)
  then show ?case by simp
next
  case (2 k' v' d k v)
  then show ?case
    using keys_dict_set [of d k v] by (auto simp: image_iff)
qed

lemma map_of_fold_set:
  "map_of (fold (\<lambda>(k, v) h. dict_set h k v) xs d) = map_of d ++ map_of (rev xs)"
proof (induction xs arbitrary: d)
  case Nil
  then show ?case by simp
next
  case (Cons x xs)
  obtain k v where x: "x = (k, v)" by (cases x)
  show ?case
    by (simp add: x Cons.IH map_of_dict_set map_add_def fun_eq_iff split: option.splits)
qed

lemma distinct_fold_set:
  "distinct (map fst d) \<Longrightarrow> distinct (map fst (fold (\<lambda>(k, v) h. dict_set h k v) xs d))"
  by (induction xs arbitrary: d) (auto simp: distinct_dict_set split: prod.splits)

lemma map_of_rev_distinct:
  assumes "distinct (map fst xs)"
  shows "map_of (rev xs) k = Some v \<longleftrightarrow> (k, v) \<in> set xs"
proof -
  have "distinct (map fst (rev xs))"
    using assms by (simp add: rev_map [symmetric])
  then show ?thesis
    using map_of_eq_Some_iff [of "rev xs" k v] by simp
qed

subsection \<open>The encoder\<close>

lemma sorted_items_eq: "distinct (map fst p) \<Longrightarrow> sorted_items p = sort_key fst p"
proof -
  assume d: "distinct (map fst p)"
  have "map (\<lambda>k. (k, the (map_of p k))) (map fst p) = p"
    unfolding map_map using d by (intro map_idI) auto
  then show ?thesis by (simp add: sorted_items_def)
qed

lemma sorted_items_same_mapping:
  assumes "distinct (map fst p)" "distinct (map fst q)" "map_of p = map_of q"
  shows "sorted_items p = sorted_items q"
proof -
  have s: "set p = set q"
    using assms by (metis map_of_inject_set)
  have "sort_key fst p = sort_key fst q"
  proof (rule map_sorted_distinct_set_unique [where f = fst])
    show "inj_on fst (set (sort_key fst p) \<union> set (sort_key fst q))"
      using assms(1) s by (simp add: inj_on_def) (metis eq_key_imp_eq_value prod.collapse)
  qed (use assms s in \<open>simp_all add: distinct_map\<close>)
  then show ?thesis using assms by (simp add: sorted_items_eq)
qed

lemma sorted_items_sorted: "sorted (map fst (sorted_items p))"
  by (simp add: sorted_items_def)

text \<open>
  C5. The encoding of a hit does not depend on the order in which its keys were
  inserted: two dicts that hold the same mapping have the same sorted pair list and the
  same payload. The pairs are sorted by key, ascending, and are the items of the hit;
  the payload of one hit is the form encoding of that list; the hit
  \<open>{"b": "2", "a": "1"}\<close> gives \<open>a=1&b=2\<close>; and the payload of a batch is the lines of
  its hits joined by a newline.
\<close>

theorem encoder_deterministic:
  assumes "distinct (map fst p)" and "distinct (map fst q)" and "map_of p = map_of q"
  shows "prepare_payloads_for_batch_request [p] = prepare_payloads_for_batch_request [q]
       \<and> sorted_items p = sorted_items q
       \<and> sorted (map fst (sorted_items p))
       \<and> set (sorted_items p) = set p
       \<and> prepare_payloads_for_batch_request [p] = urlencode (sorted_items p)
       \<and> prepare_payloads_for_batch_request [[(''b'', ''2''), (''a'', ''1'')]] = ''a=1&b=2''
       \<and> (\<forall>ps. prepare_payloads_for_batch_request ps =
              str_join [CHR 0x0A] (map (\<lambda>h. urlencode (sorted_items h)) ps))"
proof -
  have e: "sorted_items p = sorted_items q"
    using assms by (rule sorted_items_same_mapping)
  have x: "prepare_payloads_for_batch_request [[(''b'', ''2''), (''a'', ''1'')]] = ''a=1&b=2''"
    by (simp add: prepare_payloads_for_batch_request_def sorted_items_def urlencode_def
        quote_plus_def quote_byte_def always_safe_def)
  have s: "set (sorted_items p) = set p"
    using assms(1) by (simp add: sorted_items_eq)
  show ?thesis
    using e x s by (simp add: prepare_payloads_for_batch_request_def sorted_items_sorted comp_def)
qed

theorem encoder_deterministic_witness:
  "prepare_payloads_for_batch_request [[(''b'', ''2''), (''a'', ''1'')]]
     = prepare_payloads_for_batch_request [[(''a'', ''1''), (''b'', ''2'')]]"
  using encoder_deterministic [of "[(''b'', ''2''), (''a'', ''1'')]" "[(''a'', ''1''), (''b'', ''2'')]"]
  by (simp add: fun_eq_iff)

subsection \<open>The hit of a row\<close>

lemma standard_hit_data_filter:
  "standard_hit_data details =
     fold (\<lambda>(k, v) h. dict_set h k v) (filter (\<lambda>(k, v). v \<noteq> []) details) []"
proof -
  have "fold (\<lambda>(ga_key, value) hit_data.
             if value \<noteq> [] then dict_set hit_data ga_key value else hit_data) xs d
        = fold (\<lambda>(k, v) h. dict_set h k v) (filter (\<lambda>(k, v). v \<noteq> []) xs) d" for xs d
    by (induction xs arbitrary: d) (auto split: prod.splits)
  then show ?thesis by (simp add: standard_hit_data_def)
qed

lemma map_of_hit_of_row:
  "map_of (hit_of_row details r) =
     map_of (rev (filter (\<lambda>(k, v). v \<noteq> []) details)) ++ map_of (rev r)"
  by (simp add: hit_of_row_def standard_hit_data_filter map_of_fold_set)

lemma distinct_hit_of_row: "distinct (map fst (hit_of_row details r))"
  by (simp add: hit_of_row_def standard_hit_data_filter distinct_fold_set)

text \<open>
  C7. For the default hit details (a dict) and a row (its column names distinct), the
  keys of the hit are the keys of the defaults whose value is not empty together with
  the columns of the row; every column has the value of the row, also where a default
  has the same key; a default that is not empty and is no column keeps its value.
\<close>

theorem hit_of_row_contents:
  assumes "distinct (map fst details)" and "distinct (map fst r)"
  shows "fst ` set (hit_of_row details r) =
           {k. \<exists>v. (k, v) \<in> set details \<and> v \<noteq> []} \<union> fst ` set r
       \<and> (\<forall>c v. (c, v) \<in> set r \<longrightarrow> map_of (hit_of_row details r) c = Some v)
       \<and> (\<forall>k v. (k, v) \<in> set details \<and> v \<noteq> [] \<and> k \<notin> fst ` set r
              \<longrightarrow> map_of (hit_of_row details r) k = Some v)
       \<and> distinct (map fst (hit_of_row details r))"
proof -
  let ?f = "filter (\<lambda>(k, v). v \<noteq> []) details"
  have df: "distinct (map fst ?f)"
    using assms(1) by (simp add: distinct_map_filter)
  have keys: "fst ` set (hit_of_row details r) = fst ` set ?f \<union> fst ` set r"
  proof -
    have "fst ` set (hit_of_row details r) = dom (map_of (hit_of_row details r))"
      by (simp add: dom_map_of_conv_image_fst)
    also have "\<dots> = dom (map_of (rev ?f)) \<union> dom (map_of (rev r))"
      by (simp add: map_of_hit_of_row Un_commute)
    also have "\<dots> = fst ` set ?f \<union> fst ` set r"
      by (simp add: dom_map_of_conv_image_fst)
    finally show ?thesis .
  qed
  have "fst ` set ?f = {k. \<exists>v. (k, v) \<in> set details \<and> v \<noteq> []}"
    by (auto simp: image_iff)
  with keys have k: "fst ` set (hit_of_row details r) =
           {k. \<exists>v. (k, v) \<in> set details \<and> v \<noteq> []} \<union> fst ` set r"
    by simp
  have a: "map_of (hit_of_row details r) c = Some v" if "(c, v) \<in> set r" for c v
    using that assms(2) by (simp add: map_of_hit_of_row map_of_rev_distinct)
  have b: "map_of (hit_of_row details r) k = Some v"
    if "(k, v) \<in> set details" "v \<noteq> []" "k \<notin> fst ` set r" for k v
  proof -
    have "map_of (rev r) k = None"
      using that(3) by (simp add: map_of_eq_None_iff)
    moreover have "map_of (rev ?f) k = Some v"
      using that df by (simp add: map_of_rev_distinct)
    ultimately show ?thesis
      by (simp add: map_of_hit_of_row map_add_def)
  qed
  have c: "\<forall>c v. (c, v) \<in> set r \<longrightarrow> map_of (hit_of_row details r) c = Some v"
    using a by blast
  have d: "\<forall>k v. (k, v) \<in> set details \<and> v \<noteq> [] \<and> k \<notin> fst ` set r
              \<longrightarrow> map_of (hit_of_row details r) k = Some v"
    using b by blast
  from k c d distinct_hit_of_row [of details r] show ?thesis
    by (intro conjI)
qed

theorem hit_of_row_contents_witness:
  "map_of (hit_of_row [(''v'', ''1''), (''ec'', ''''), (''t'', ''event'')]
             [(''cid'', ''7''), (''t'', ''pageview'')]) ''t'' = Some ''pageview''
   \<and> map_of (hit_of_row [(''v'', ''1''), (''ec'', ''''), (''t'', ''event'')]
                 [(''cid'', ''7''), (''t'', ''pageview'')]) ''v'' = Some ''1''"
proof -
  let ?D = "[(''v'', ''1''), (''ec'', ''''), (''t'', ''event'')]"
  let ?R = "[(''cid'', ''7''), (''t'', ''pageview'')]"
  have d1: "distinct (map fst ?D)" by simp
  have d2: "distinct (map fst ?R)" by simp
  note t = hit_of_row_contents [OF d1 d2]
  have "map_of (hit_of_row ?D ?R) ''t'' = Some ''pageview''"
    using t [THEN conjunct2, THEN conjunct1, rule_format, of "''t''" "''pageview''"] by simp
  moreover have "map_of (hit_of_row ?D ?R) ''v'' = Some ''1''"
    using t [THEN conjunct2, THEN conjunct2, THEN conjunct1, rule_format, of "''v''" "''1''"]
    by simp
  ultimately show ?thesis by simp
qed

subsection \<open>The batches\<close>

lemma batch_sizes_step: "batch_sizes (20 + n) = 20 # batch_sizes n"
proof -
  have d: "(20 + n) div 20 = Suc (n div 20)" by simp
  have m: "(20 + n) mod 20 = n mod 20" by simp
  show ?thesis unfolding batch_sizes_def d m by simp
qed

lemma accumulate_full:
  "length pl = 19 \<Longrightarrow> accumulate (h # hs) (length pl) pl = (pl @ [h]) # accumulate hs 0 []"
  by (simp add: Let_def)

lemma accumulate_part:
  "length pl < 19 \<Longrightarrow>
     accumulate (h # hs) (length pl) pl = accumulate hs (length (pl @ [h])) (pl @ [h])"
  by (simp add: Let_def)

lemma accumulate_lengths:
  "length pl < 20 \<Longrightarrow>
     map length (accumulate hs (length pl) pl) = batch_sizes (length pl + length hs)"
proof (induction hs arbitrary: pl)
  case Nil
  then show ?case by (simp add: batch_sizes_def)
next
  case (Cons h hs)
  show ?case
  proof (cases "length pl = 19")
    case True
    have "map length (accumulate hs (length ([]::'a list)) []) =
            batch_sizes (length ([]::'a list) + length hs)"
      by (rule Cons.IH) simp
    then have "map length (accumulate hs 0 []) = batch_sizes (length hs)"
      by simp
    then have "map length (accumulate (h # hs) (length pl) pl) = 20 # batch_sizes (length hs)"
      using True by (simp only: accumulate_full list.map length_append) simp
    also have "\<dots> = batch_sizes (20 + length hs)"
      by (simp only: batch_sizes_step)
    also have "20 + length hs = length pl + length (h # hs)"
      using True by simp
    finally show ?thesis .
  next
    case False
    with Cons.prems have lt: "length pl < 19" by simp
    then have "length (pl @ [h]) < 20" by simp
    then have "map length (accumulate hs (length (pl @ [h])) (pl @ [h]))
                 = batch_sizes (length (pl @ [h]) + length hs)"
      by (rule Cons.IH)
    moreover have "length (pl @ [h]) + length hs = length pl + length (h # hs)"
      by simp
    ultimately show ?thesis
      using lt by (simp only: accumulate_part)
  qed
qed



subsection \<open>send_mp_hit\<close>

lemma posted_print [simp]: "posted (print l s) = posted s"
  by (simp add: print_def)

lemma send_mp_hit_status:
  assumes "mp_response w (length (posted s)) = Inr c"
  shows "fst (send_mp_hit w p succ failed s) =
           (if 200 \<le> c \<and> c < 299 then Inr (succ @ [p], failed) else Inr (succ, failed @ [p]))"
  using assms by (simp add: send_mp_hit_def Let_def in_range_def)

lemma send_mp_hit_fault:
  assumes "mp_response w (length (posted s)) = Inl e"
  shows "fst (send_mp_hit w p succ failed s) = Inl e"
  using assms by (simp add: send_mp_hit_def Let_def)

lemma send_mp_hit_posted:
  "posted (snd (send_mp_hit w p succ failed s)) = posted s @ [p]"
  by (simp add: send_mp_hit_def Let_def split: sum.splits)

lemma send_mp_hit_Inr:
  assumes "send_mp_hit w p succ failed s = (Inr (succ', failed'), s')"
  shows "posted s' = posted s @ [p]
       \<and> mset succ' + mset failed' = mset succ + mset failed + {#p#}"
proof -
  have "posted s' = posted s @ [p]"
    using send_mp_hit_posted [of w p succ failed s] assms by simp
  moreover have "mset succ' + mset failed' = mset succ + mset failed + {#p#}"
    using assms by (auto simp: send_mp_hit_def Let_def split: sum.splits if_splits)
  ultimately show ?thesis by simp
qed

text \<open>
  C2. A response with status 299 is classified as a failure: \<open>range(200, 299)\<close> ends at
  298, so the payload is appended to \<open>failed_requests\<close>. By \<open>send_mp_hit_status\<close> above,
  the statuses 200 to 298 are successes, every status outside 200 to 299 is a failure,
  and no status code makes \<open>send_mp_hit\<close> raise.
\<close>

theorem send_mp_hit_status_299:
  "fst (send_mp_hit (example_world\<lparr>mp_response := \<lambda>k. Inr 299\<rparr>) ''v=1'' [] [] no_effects)
     = Inr ([], [''v=1''])"
  by (simp add: send_mp_hit_def Let_def in_range_def)

subsection \<open>The loop of write_to_ga_via_mp\<close>

lemma ceil20: "(n + 19) div 20 = n div 20 + (if 0 < n mod 20 then 1 else 0)" for n :: nat
proof -
  define q r where "q = n div 20" and "r = n mod 20"
  have n: "n = 20 * q + r" and r: "r < 20"
    by (simp_all add: q_def r_def)
  have "(r + 19) div 20 = (if 0 < r then 1 else 0)"
  proof (cases "r = 0")
    case True
    then show ?thesis by simp
  next
    case False
    then have "20 \<le> r + 19" "r + 19 < 2 * 20" using r by simp_all
    then have "(r + 19) div 20 = 1"
      by (simp add: div_nat_eqI)
    with False show ?thesis by simp
  qed
  moreover have "(n + 19) div 20 = q + (r + 19) div 20"
    unfolding n by (simp add: add.assoc)
  ultimately show ?thesis
    unfolding q_def r_def by simp
qed

lemma length_batch_sizes: "length (batch_sizes n) = (n + 19) div 20"
  unfolding ceil20 by (simp add: batch_sizes_def)

lemma length_mp_batches: "length (mp_batches hits) = (length hits + 19) div 20"
proof -
  have "map length (mp_batches hits) = batch_sizes (length hits)"
    using accumulate_lengths [of "[]" hits] by (simp add: mp_batches_def)
  then have "length (map length (mp_batches hits)) = length (batch_sizes (length hits))"
    by simp
  then show ?thesis
    by (simp add: length_batch_sizes)
qed

lemma mp_loop_full:
  "length pl = 19 \<Longrightarrow>
     mp_loop w (r # rows) (length pl) pl succ failed s =
       (case send_mp_hit w
               (prepare_payloads_for_batch_request
                  (pl @ [hit_of_row (GA_MP_STANDARD_HIT_DETAILS w) r]))
               succ failed
               (print (''Payload to send: '' @
                  prepare_payloads_for_batch_request
                    (pl @ [hit_of_row (GA_MP_STANDARD_HIT_DETAILS w) r])) s) of
          (Inl e, s2) \<Rightarrow> (Inl e, s2)
        | (Inr (succ2, failed2), s2) \<Rightarrow> mp_loop w rows 0 [] succ2 failed2 s2)"
  by (simp add: Let_def)

lemma mp_loop_part:
  "length pl < 19 \<Longrightarrow>
     mp_loop w (r # rows) (length pl) pl succ failed s =
       mp_loop w rows (length (pl @ [hit_of_row (GA_MP_STANDARD_HIT_DETAILS w) r]))
         (pl @ [hit_of_row (GA_MP_STANDARD_HIT_DETAILS w) r]) succ failed s"
  by (simp add: Let_def)

lemma last_batch_call_Inl [simp]: "last_batch_call w (Inl e, s) = (Inl e, s)"
  by (simp add: last_batch_call_def)

lemma last_batch_call_loop:
  assumes "last_batch_call w (mp_loop w rows (length pl) pl succ failed s)
             = (Inr (succ', failed'), s')"
      and "length pl < 20"
  shows "posted s' = posted s @ map prepare_payloads_for_batch_request
                        (accumulate (map (hit_of_row (GA_MP_STANDARD_HIT_DETAILS w)) rows)
                           (length pl) pl)
       \<and> mset succ' + mset failed' =
           mset succ + mset failed + mset (map prepare_payloads_for_batch_request
                        (accumulate (map (hit_of_row (GA_MP_STANDARD_HIT_DETAILS w)) rows)
                           (length pl) pl))"
  using assms
proof (induction rows arbitrary: pl succ failed s)
  case Nil
  show ?case
  proof (cases "pl = []")
    case True
    with Nil show ?thesis by (simp add: last_batch_call_def)
  next
    case False
    let ?p = "prepare_payloads_for_batch_request pl"
    from False Nil.prems(1) have
      "send_mp_hit w ?p succ failed
         (print (''Payload to send: '' @ ?p) (print ''Sending remaining items to GA'' s))
       = (Inr (succ', failed'), s')"
      by (simp add: last_batch_call_def Let_def)
    from send_mp_hit_Inr [OF this] False show ?thesis by simp
  qed
next
  case (Cons r rows)
  let ?h = "hit_of_row (GA_MP_STANDARD_HIT_DETAILS w) r"
  let ?hs = "map (hit_of_row (GA_MP_STANDARD_HIT_DETAILS w)) rows"
  show ?case
  proof (cases "length pl = 19")
    case True
    let ?p = "prepare_payloads_for_batch_request (pl @ [?h])"
    let ?s1 = "print (''Payload to send: '' @ ?p) s"
    obtain res s2 where snd: "send_mp_hit w ?p succ failed ?s1 = (res, s2)"
      by (cases "send_mp_hit w ?p succ failed ?s1")
    show ?thesis
    proof (cases res)
      case (Inl e)
      with snd True Cons.prems(1) show ?thesis
        by (simp add: mp_loop_full)
    next
      case (Inr pr)
      obtain succ2 failed2 where pr: "pr = (succ2, failed2)" by (cases pr)
      from snd Inr pr have snd': "send_mp_hit w ?p succ failed ?s1 = (Inr (succ2, failed2), s2)"
        by simp
      from Cons.prems(1) True snd' have
        "last_batch_call w (mp_loop w rows (length ([]::pydict list)) [] succ2 failed2 s2)
           = (Inr (succ', failed'), s')"
        by (simp add: mp_loop_full)
      from Cons.IH [OF this] have ih:
        "posted s' = posted s2 @ map prepare_payloads_for_batch_request (accumulate ?hs 0 [])"
        "mset succ' + mset failed' = mset succ2 + mset failed2
           + mset (map prepare_payloads_for_batch_request (accumulate ?hs 0 []))"
        by simp_all
      from send_mp_hit_Inr [OF snd'] have st:
        "posted s2 = posted s @ [?p]"
        "mset succ2 + mset failed2 = mset succ + mset failed + {#?p#}"
        by simp_all
      have acc: "accumulate (map (hit_of_row (GA_MP_STANDARD_HIT_DETAILS w)) (r # rows))
                   (length pl) pl = (pl @ [?h]) # accumulate ?hs 0 []"
        by (simp only: list.map accumulate_full [OF True])
      show ?thesis
        unfolding acc using ih st by (simp add: ac_simps)
    qed
  next
    case False
    with Cons.prems(2) have lt: "length pl < 19" by simp
    then have lt': "length (pl @ [?h]) < 20" by simp
    from Cons.prems(1) lt have
      "last_batch_call w (mp_loop w rows (length (pl @ [?h])) (pl @ [?h]) succ failed s)
         = (Inr (succ', failed'), s')"
      by (simp only: mp_loop_part)
    from Cons.IH [OF this lt'] have ih:
      "posted s' = posted s @ map prepare_payloads_for_batch_request
                      (accumulate ?hs (length (pl @ [?h])) (pl @ [?h]))"
      "mset succ' + mset failed' = mset succ + mset failed
         + mset (map prepare_payloads_for_batch_request
                      (accumulate ?hs (length (pl @ [?h])) (pl @ [?h])))"
      by simp_all
    have acc: "accumulate (map (hit_of_row (GA_MP_STANDARD_HIT_DETAILS w)) (r # rows))
                 (length pl) pl = accumulate ?hs (length (pl @ [?h])) (pl @ [?h])"
      by (simp only: list.map accumulate_part [OF lt])
    show ?thesis
      unfolding acc using ih by simp
  qed
qed

lemma send_mp_hit_returns:
  assumes "\<forall>k. \<exists>c. mp_response w k = Inr c"
  shows "\<exists>succ' failed' s'. send_mp_hit w p succ failed s = (Inr (succ', failed'), s')"
proof -
  obtain c where "mp_response w (length (posted s)) = Inr c"
    using assms by blast
  then show ?thesis
    by (simp add: send_mp_hit_def Let_def)
qed

lemma last_batch_call_returns:
  assumes "\<forall>k. \<exists>c. mp_response w k = Inr c"
  shows "\<exists>succ' failed' s'.
           last_batch_call w (mp_loop w rows i pl succ failed s) = (Inr (succ', failed'), s')"
proof (induction rows arbitrary: i pl succ failed s)
  case Nil
  show ?case
    using send_mp_hit_returns [OF assms] by (simp add: last_batch_call_def Let_def)
next
  case (Cons r rows)
  let ?h = "hit_of_row (GA_MP_STANDARD_HIT_DETAILS w) r"
  show ?case
  proof (cases "Suc i mod 20 = 0")
    case True
    let ?p = "prepare_payloads_for_batch_request (pl @ [?h])"
    obtain succ2 failed2 s2 where
      "send_mp_hit w ?p succ failed (print (''Payload to send: '' @ ?p) s)
         = (Inr (succ2, failed2), s2)"
      using send_mp_hit_returns [OF assms] by blast
    with True Cons.IH [of 0 "[]" succ2 failed2 s2] show ?thesis
      by (simp add: Let_def)
  next
    case False
    with Cons.IH [of "Suc i" "pl @ [?h]" succ failed s] show ?thesis
      by (simp add: Let_def)
  qed
qed

lemma mp_submit_all_Inr:
  assumes "mp_submit_all w df s = (Inr (succ, failed), s')"
  shows "posted s' = posted s @ map prepare_payloads_for_batch_request
                        (mp_batches (map (hit_of_row (GA_MP_STANDARD_HIT_DETAILS w)) df))"
    and "mset succ + mset failed =
           mset (map prepare_payloads_for_batch_request
                   (mp_batches (map (hit_of_row (GA_MP_STANDARD_HIT_DETAILS w)) df)))"
proof -
  have "last_batch_call w (mp_loop w df (length ([]::pydict list)) [] [] [] s)
          = (Inr (succ, failed), s')"
    using assms by (simp add: mp_submit_all_def)
  from last_batch_call_loop [OF this]
  show "posted s' = posted s @ map prepare_payloads_for_batch_request
                        (mp_batches (map (hit_of_row (GA_MP_STANDARD_HIT_DETAILS w)) df))"
    and "mset succ + mset failed =
           mset (map prepare_payloads_for_batch_request
                   (mp_batches (map (hit_of_row (GA_MP_STANDARD_HIT_DETAILS w)) df)))"
    by (simp_all add: mp_batches_def)
qed

lemma mp_submit_all_returns:
  assumes "\<forall>k. \<exists>c. mp_response w k = Inr c"
  shows "\<exists>succ failed s'. mp_submit_all w df s = (Inr (succ, failed), s')"
  unfolding mp_submit_all_def by (rule last_batch_call_returns [OF assms])


lemma send_mp_hit_Inl:
  assumes "send_mp_hit w p succ failed s = (Inl e, s')"
  shows "mp_response w (length (posted s)) = Inl e"
  using assms by (auto simp: send_mp_hit_def Let_def split: sum.splits if_splits)

lemma last_batch_call_raises:
  assumes "last_batch_call w (mp_loop w rows i pl succ failed s) = (Inl e, s')"
  shows "\<exists>k. mp_response w k = Inl e"
  using assms
proof (induction rows arbitrary: i pl succ failed s)
  case Nil
  then show ?case
    by (auto simp: last_batch_call_def Let_def split: if_splits dest: send_mp_hit_Inl)
next
  case (Cons row rows)
  let ?h = "hit_of_row (GA_MP_STANDARD_HIT_DETAILS w) row"
  show ?case
  proof (cases "Suc i mod 20 = 0")
    case True
    let ?p = "prepare_payloads_for_batch_request (pl @ [?h])"
    let ?s1 = "print (''Payload to send: '' @ ?p) s"
    obtain res s2 where snd: "send_mp_hit w ?p succ failed ?s1 = (res, s2)"
      by (cases "send_mp_hit w ?p succ failed ?s1")
    show ?thesis
    proof (cases res)
      case (Inl e2)
      with snd True Cons.prems have "e2 = e"
        by (simp add: Let_def)
      with snd Inl show ?thesis
        using send_mp_hit_Inl by blast
    next
      case (Inr pr)
      obtain succ2 failed2 where pr: "pr = (succ2, failed2)" by (cases pr)
      from Cons.prems True snd Inr pr have
        "last_batch_call w (mp_loop w rows 0 [] succ2 failed2 s2) = (Inl e, s')"
        by (simp add: Let_def)
      then show ?thesis by (rule Cons.IH)
    qed
  next
    case False
    with Cons.prems have
      "last_batch_call w (mp_loop w rows (Suc i) (pl @ [?h]) succ failed s) = (Inl e, s')"
      by (simp add: Let_def)
    then show ?thesis by (rule Cons.IH)
  qed
qed




text \<open>
  The same run seen from \<open>trigger_workflow\<close>: the exception of the second POST leaves the
  loop before either list is appended to, the run ends with the ERROR message of that
  exception and without the report; two payloads were posted and one was classified,
  where 45 hits make 3 batches.
\<close>

theorem partition_fault_counterexample:
  "(case trigger_workflow fault_world of
      (result, s) \<Rightarrow>
        result = Returned ''2020-06-01 12:00:00,ERROR,Connection reset''
      \<and> length (posted s) = 2
      \<and> map (take 12) (printed s)
          = [''Payload to s'', ''Sending meas'', ''Measurement '',
             ''Payload to s'', ''Sending meas''])
   \<and> (length (replicate 45 [(''cid'', ''7'')]) + 19) div 20 = (3::nat)"
proof (rule conjI)
  show "case trigger_workflow fault_world of
      (result, s) \<Rightarrow>
        result = Returned ''2020-06-01 12:00:00,ERROR,Connection reset''
      \<and> length (posted s) = 2
      \<and> map (take 12) (printed s)
          = [''Payload to s'', ''Sending meas'', ''Measurement '',
             ''Payload to s'', ''Sending meas'']"
    by code_simp
  show "(length (replicate 45 [(''cid'', ''7'')]) + 19) div 20 = (3::nat)"
    by simp
qed

text \<open>
  C6, amended. When every POST is answered with a status code, the loop and the last
  batch call return the two lists. Whenever they return them, every payload posted is in
  exactly one of the two lists (together they hold, as multisets, the payloads of the
  batches), the POSTs of the run are the payloads of the batches in order, and the
  lengths of the two lists add up to the number of batches, \<open>ceil(N / 20)\<close> for \<open>N\<close> rows.
  The lists are not returned only when a POST has raised, and then that exception
  leaves the loop.
\<close>

theorem partition_of_payloads:
  "((\<forall>k. \<exists>c. mp_response w k = Inr c) \<longrightarrow>
      (\<exists>succ failed s'. mp_submit_all w df s = (Inr (succ, failed), s')))
   \<and> (\<forall>succ failed s'. mp_submit_all w df s = (Inr (succ, failed), s') \<longrightarrow>
         length succ + length failed = (length df + 19) div 20
       \<and> mset succ + mset failed =
           mset (map prepare_payloads_for_batch_request
                   (mp_batches (map (hit_of_row (GA_MP_STANDARD_HIT_DETAILS w)) df)))
       \<and> posted s' = posted s @ map prepare_payloads_for_batch_request
                        (mp_batches (map (hit_of_row (GA_MP_STANDARD_HIT_DETAILS w)) df)))
   \<and> (\<forall>e s'. mp_submit_all w df s = (Inl e, s') \<longrightarrow> (\<exists>k. mp_response w k = Inl e))"
proof (intro conjI allI impI)
  assume "\<forall>k. \<exists>c. mp_response w k = Inr c"
  then show "\<exists>succ failed s'. mp_submit_all w df s = (Inr (succ, failed), s')"
    by (rule mp_submit_all_returns)
next
  fix succ failed s'
  assume r: "mp_submit_all w df s = (Inr (succ, failed), s')"
  let ?ps = "map prepare_payloads_for_batch_request
               (mp_batches (map (hit_of_row (GA_MP_STANDARD_HIT_DETAILS w)) df))"
  show m: "mset succ + mset failed = mset ?ps"
    by (rule mp_submit_all_Inr(2) [OF r])
  show "posted s' = posted s @ ?ps"
    by (rule mp_submit_all_Inr(1) [OF r])
  have "length succ + length failed = size (mset succ + mset failed)"
    by simp
  also have "\<dots> = length ?ps"
    unfolding m by simp
  also have "\<dots> = (length df + 19) div 20"
    by (simp add: length_mp_batches)
  finally show "length succ + length failed = (length df + 19) div 20" .
next
  fix e s'
  assume "mp_submit_all w df s = (Inl e, s')"
  then show "\<exists>k. mp_response w k = Inl e"
    unfolding mp_submit_all_def by (rule last_batch_call_raises)
qed

theorem partition_of_payloads_witness:
  "\<exists>succ failed s'.
     mp_submit_all failing_world (replicate 45 [(''cid'', ''7'')]) no_effects
       = (Inr (succ, failed), s')
     \<and> length succ + length failed = 3"
proof -
  note t = partition_of_payloads [of failing_world "replicate 45 [(''cid'', ''7'')]" no_effects]
  have "\<forall>k. \<exists>c. mp_response failing_world k = Inr c"
    by (simp add: failing_world_def example_world_def)
  with t obtain succ failed s' where
    r: "mp_submit_all failing_world (replicate 45 [(''cid'', ''7'')]) no_effects
          = (Inr (succ, failed), s')"
    by blast
  with t have "length succ + length failed = (length (replicate 45 [(''cid'', ''7'')]) + 19) div 20"
    by blast
  then have "length succ + length failed = 3"
    by simp
  with r show ?thesis by blast
qed

text \<open>
  After the report, a run in which a batch has failed raises: the lists are returned by
  the loop, \<open>failed_requests\<close> is not empty, and line 239 is reached.
\<close>

lemma write_to_ga_via_mp_failed:
  assumes "mp_submit_all w df s = (Inr (succ, failed), s1)" and "failed \<noteq> []"
  shows "write_to_ga_via_mp w df s
           = (Some str_plus_list_error, print (report_line succ failed) s1)"
  using assms by (simp add: write_to_ga_via_mp_def)

text \<open>
  C1. 45 rows, the second POST answered with status 500. The batches have 20, 20 and 5
  hits, three payloads are posted and the report counts 2 successful batches and 1
  failed batch. Then line 239 raises \<open>TypeError\<close>, which \<open>trigger_workflow\<close> catches:
  the run ends with an ERROR outcome that carries the text of that exception, not with
  SUCCESS.
\<close>

theorem failed_batch_ends_in_error:
  "map length (mp_batches (map (hit_of_row [(''v'', ''1'')]) (replicate 45 [(''cid'', ''7'')])))
     = [20, 20, 5]
   \<and> (case trigger_workflow failing_world of
        (result, s) \<Rightarrow>
          length (posted s) = 3
        \<and> last (printed s)
            = ''Completed all GA calls. Total successful batches:  2 and failed batches: 1''
        \<and> result = Returned (''2020-06-01 12:00:00,ERROR,'' @ exn_str str_plus_list_error))"
proof (rule conjI)
  have "batch_sizes 45 = [20, 20, 5]"
    by (simp add: batch_sizes_def numeral_2_eq_2)
  then show "map length (mp_batches (map (hit_of_row [(''v'', ''1'')])
                 (replicate 45 [(''cid'', ''7'')]))) = [20, 20, 5]"
    using accumulate_lengths [of "[]" "map (hit_of_row [(''v'', ''1'')])
                 (replicate 45 [(''cid'', ''7'')])"]
    by (simp add: mp_batches_def)
  show "case trigger_workflow failing_world of
        (result, s) \<Rightarrow>
          length (posted s) = 3
        \<and> last (printed s)
            = ''Completed all GA calls. Total successful batches:  2 and failed batches: 1''
        \<and> result = Returned (''2020-06-01 12:00:00,ERROR,'' @ exn_str str_plus_list_error)"
    by code_simp
qed

subsection \<open>trigger_workflow\<close>

lemmas run_defs =
  trigger_workflow_def try_body_def transform_and_submit_def read_from_bq_def
  write_to_bq_logs_def send_email_def

lemma str_nat_0: "str_nat 0 = ''0''"
  by (simp add: str_nat.simps digit_char_def)

lemma empty_mp_run:
  "write_to_ga_via_mp w [] s =
     (None, print ''Completed all GA calls. Total successful batches:  0 and failed batches: 0'' s)"
  by (simp add: write_to_ga_via_mp_def mp_submit_all_def last_batch_call_def report_line_def
      str_nat_0)

text \<open>
  With a method that is neither \<open>di\<close> nor \<open>mp\<close>: when logging is on and the log write
  ends in an exception, that exception leaves \<open>trigger_workflow\<close> and nothing is
  returned; when the query raises, the message returned is the one of the query.
\<close>

theorem unknown_method_counterexample:
  "GA_IMPORT_METHOD log_down_world \<noteq> ''di'' \<and> GA_IMPORT_METHOD log_down_world \<noteq> ''mp''
   \<and> fst (trigger_workflow log_down_world)
       = Raised (PyExn ''GoogleAPIError'' ''log table not reachable'')
   \<and> GA_IMPORT_METHOD query_down_world \<noteq> ''di'' \<and> GA_IMPORT_METHOD query_down_world \<noteq> ''mp''
   \<and> fst (trigger_workflow query_down_world) = Returned ''2020-06-01 12:00:00,ERROR,query failed''"
  by (simp add: run_defs log_down_world_def query_down_world_def unknown_method_world_def example_world_def no_effects_def)

text \<open>
  C8, amended. For a method that is neither \<open>di\<close> nor \<open>mp\<close>, once the query has given
  its rows, the flow raises the exception with the text \<open>GA Export Method not found.\<close>
  before anything is posted; the log write (when logging is on) and the e-mail (when
  e-mail is on) get that text; when neither of them raises, \<open>trigger_workflow\<close> returns
  \<open><timestamp>,ERROR,GA Export Method not found.\<close>; when the log write raises, or the
  e-mail does after it, that exception leaves \<open>trigger_workflow\<close>. When the query
  raises instead, the message returned is the one of the query.
\<close>

theorem unknown_method_outcome:
  assumes "GA_IMPORT_METHOD w \<noteq> ''di''" and "GA_IMPORT_METHOD w \<noteq> ''mp''"
  shows "(\<forall>df. bq_query w = Inr df \<longrightarrow>
            transform_and_submit w no_effects
              = (Some (PyExn ''Exception'' ''GA Export Method not found.''), no_effects)
          \<and> ((ENABLED_LOGGING w \<longrightarrow> bq_log w ''ERROR'' ''GA Export Method not found.'' = None)
              \<and> (ENABLED_EMAIL w \<longrightarrow> sendgrid w ''GA Export Method not found.'' = None) \<longrightarrow>
                fst (trigger_workflow w)
                  = Returned (now w @ '',ERROR,GA Export Method not found.'')
              \<and> logged (snd (trigger_workflow w))
                  = (if ENABLED_LOGGING w then [(''ERROR'', ''GA Export Method not found.'')]
                     else [])
              \<and> mailed (snd (trigger_workflow w))
                  = (if ENABLED_EMAIL w then [''GA Export Method not found.''] else [])
              \<and> posted (snd (trigger_workflow w)) = [])
          \<and> (\<forall>e1. ENABLED_LOGGING w
                    \<and> bq_log w ''ERROR'' ''GA Export Method not found.'' = Some e1 \<longrightarrow>
                  fst (trigger_workflow w) = Raised e1)
          \<and> (\<forall>e2. (ENABLED_LOGGING w \<longrightarrow>
                       bq_log w ''ERROR'' ''GA Export Method not found.'' = None)
                    \<and> ENABLED_EMAIL w
                    \<and> sendgrid w ''GA Export Method not found.'' = Some e2 \<longrightarrow>
                  fst (trigger_workflow w) = Raised e2))
       \<and> (\<forall>e0. bq_query w = Inl e0
                \<and> (ENABLED_LOGGING w \<longrightarrow> bq_log w ''ERROR'' (exn_str e0) = None)
                \<and> (ENABLED_EMAIL w \<longrightarrow> sendgrid w (exn_str e0) = None) \<longrightarrow>
              fst (trigger_workflow w) = Returned (now w @ '',ERROR,'' @ exn_str e0))"
  using assms by (auto simp: run_defs no_effects_def)

theorem unknown_method_outcome_witness:
  "fst (trigger_workflow unknown_method_world)
     = Returned ''2020-06-01 12:00:00,ERROR,GA Export Method not found.''"
proof -
  have m: "GA_IMPORT_METHOD unknown_method_world \<noteq> ''di''"
    "GA_IMPORT_METHOD unknown_method_world \<noteq> ''mp''"
    by (simp_all add: unknown_method_world_def example_world_def)
  have q: "bq_query unknown_method_world = Inr []"
    by (simp add: unknown_method_world_def example_world_def)
  have e: "(ENABLED_LOGGING unknown_method_world \<longrightarrow>
              bq_log unknown_method_world ''ERROR'' ''GA Export Method not found.'' = None)
         \<and> (ENABLED_EMAIL unknown_method_world \<longrightarrow>
              sendgrid unknown_method_world ''GA Export Method not found.'' = None)"
    by (simp add: unknown_method_world_def example_world_def)
  from unknown_method_outcome [OF m, THEN conjunct1, rule_format, OF q,
      THEN conjunct2, THEN conjunct1, rule_format, OF e, THEN conjunct1]
  show ?thesis
    by (simp add: unknown_method_world_def example_world_def)
qed

text \<open>
  The flow raises, the log write of the error returns, the e-mail ends in an exception:
  that exception leaves \<open>trigger_workflow\<close> too, and nothing is returned.
\<close>

theorem email_failure_counterexample:
  "bq_log email_down_world ''ERROR'' ''GA Export Method not found.'' = None
   \<and> logged (snd (trigger_workflow email_down_world))
       = [(''ERROR'', ''GA Export Method not found.'')]
   \<and> fst (trigger_workflow email_down_world) = Raised (PyExn ''Exception'' ''Email not sent.'')"
  by (simp add: run_defs email_down_world_def unknown_method_world_def example_world_def no_effects_def)

text \<open>
  C9, amended. When the body of the \<open>try\<close> has raised \<open>e\<close>, logging is on and the log
  write of the error ends in an exception, that exception leaves \<open>trigger_workflow\<close>:
  nothing is returned, and no e-mail is sent after the log write. It is not the only
  such case: after the body has raised, \<open>trigger_workflow\<close> ends in an exception exactly
  when the log write (logging on) or the e-mail (e-mail on) ends in one. When the body
  has not raised, its message is returned (\<open>try_body_returns\<close>).
\<close>

theorem side_effect_failure_escapes:
  assumes "try_body w no_effects = (Inl e, s)"
  shows "(ENABLED_LOGGING w \<and> bq_log w ''ERROR'' (exn_str e) = Some e1 \<longrightarrow>
            fst (trigger_workflow w) = Raised e1
          \<and> mailed (snd (trigger_workflow w)) = mailed s
          \<and> logged (snd (trigger_workflow w)) = logged s @ [(''ERROR'', exn_str e)])
       \<and> ((\<exists>x. fst (trigger_workflow w) = Raised x) \<longleftrightarrow>
            (ENABLED_LOGGING w \<and> bq_log w ''ERROR'' (exn_str e) \<noteq> None)
          \<or> (ENABLED_EMAIL w \<and> sendgrid w (exn_str e) \<noteq> None))"
  using assms
  by (auto simp: trigger_workflow_def write_to_bq_logs_def send_email_def
      split: option.splits)

lemma try_body_returns:
  assumes "try_body w no_effects = (Inr m, s)"
  shows "trigger_workflow w = (Returned m, s)"
  using assms by (simp add: trigger_workflow_def)

theorem side_effect_failure_escapes_witness:
  "fst (trigger_workflow log_down_world)
     = Raised (PyExn ''GoogleAPIError'' ''log table not reachable'')
   \<and> mailed (snd (trigger_workflow log_down_world)) = []"
proof -
  have b: "try_body log_down_world no_effects
             = (Inl (PyExn ''Exception'' ''GA Export Method not found.''), no_effects)"
    by (simp add: run_defs log_down_world_def unknown_method_world_def example_world_def no_effects_def)
  have l: "ENABLED_LOGGING log_down_world
             \<and> bq_log log_down_world ''ERROR''
                 (exn_str (PyExn ''Exception'' ''GA Export Method not found.''))
               = Some (PyExn ''GoogleAPIError'' ''log table not reachable'')"
    by (simp add: log_down_world_def unknown_method_world_def example_world_def no_effects_def)
  from side_effect_failure_escapes [OF b, THEN conjunct1, rule_format, OF l]
  show ?thesis by (simp add: no_effects_def)
qed

text \<open>
  The flow completes, logging and e-mail are on and both log writes end in an
  exception: the exception of the second one leaves \<open>trigger_workflow\<close>, no e-mail is
  sent and nothing is returned.
\<close>

theorem success_log_failure_counterexample:
  "transform_and_submit all_logs_down_world no_effects
     = (None, print ''Completed all GA calls. Total successful batches:  0 and failed batches: 0''
                no_effects)
   \<and> ENABLED_LOGGING all_logs_down_world \<and> ENABLED_EMAIL all_logs_down_world
   \<and> bq_log all_logs_down_world ''SUCCESS'' []
       = Some (PyExn ''GoogleAPIError'' ''log table not reachable'')
   \<and> fst (trigger_workflow all_logs_down_world)
       = Raised (PyExn ''GoogleAPIError'' ''log table not reachable'')
   \<and> mailed (snd (trigger_workflow all_logs_down_world)) = []"
  by (simp add: run_defs all_logs_down_world_def example_world_def no_effects_def empty_mp_run print_def)

text \<open>
  C10, amended. When the flow completes, logging is on and the log write of the success
  ends in the exception \<open>e\<close>: the handler catches \<open>e\<close>, SUCCESS is not returned, and the
  log write of an error is called with the text of \<open>e\<close>. When that log write returns,
  the e-mail (when e-mail is on) is sent with the text of \<open>e\<close>, and when the e-mail
  does not raise either, \<open><timestamp>,ERROR,<text of e>\<close> is returned. Whatever
  \<open>trigger_workflow\<close> returns in this case is that ERROR message. When the log write of
  the error raises, no e-mail is sent and its exception leaves \<open>trigger_workflow\<close>; when
  the e-mail raises, its exception does.
\<close>

theorem success_log_failure_reclassified:
  assumes "transform_and_submit w no_effects = (None, s)"
      and "ENABLED_LOGGING w"
      and "bq_log w ''SUCCESS'' [] = Some e"
  shows "try_body w no_effects = (Inl e, s\<lparr>logged := logged s @ [(''SUCCESS'', [])]\<rparr>)
       \<and> fst (trigger_workflow w) \<noteq> Returned (now w @ '',SUCCESS'')
       \<and> logged (snd (trigger_workflow w))
           = logged s @ [(''SUCCESS'', []), (''ERROR'', exn_str e)]
       \<and> (bq_log w ''ERROR'' (exn_str e) = None \<longrightarrow>
            mailed (snd (trigger_workflow w))
              = (if ENABLED_EMAIL w then mailed s @ [exn_str e] else mailed s))
       \<and> (bq_log w ''ERROR'' (exn_str e) = None
            \<and> (ENABLED_EMAIL w \<longrightarrow> sendgrid w (exn_str e) = None) \<longrightarrow>
            fst (trigger_workflow w) = Returned (now w @ '',ERROR,'' @ exn_str e))
       \<and> (\<forall>m. fst (trigger_workflow w) = Returned m \<longrightarrow> m = now w @ '',ERROR,'' @ exn_str e)
       \<and> (\<forall>e1. bq_log w ''ERROR'' (exn_str e) = Some e1 \<longrightarrow>
              fst (trigger_workflow w) = Raised e1
            \<and> mailed (snd (trigger_workflow w)) = mailed s)
       \<and> (\<forall>e2. bq_log w ''ERROR'' (exn_str e) = None \<and> ENABLED_EMAIL w
                \<and> sendgrid w (exn_str e) = Some e2 \<longrightarrow>
              fst (trigger_workflow w) = Raised e2)"
  using assms
  by (auto simp: trigger_workflow_def try_body_def write_to_bq_logs_def send_email_def
      split: option.splits)

theorem success_log_failure_reclassified_witness:
  "fst (trigger_workflow success_log_down_world)
     = Returned ''2020-06-01 12:00:00,ERROR,log table not reachable''
   \<and> mailed (snd (trigger_workflow success_log_down_world)) = [''log table not reachable'']"
proof -
  let ?s = "print ''Completed all GA calls. Total successful batches:  0 and failed batches: 0''
              no_effects"
  let ?e = "PyExn ''GoogleAPIError'' ''log table not reachable''"
  have t: "transform_and_submit success_log_down_world no_effects = (None, ?s)"
    by (simp add: run_defs success_log_down_world_def example_world_def no_effects_def empty_mp_run)
  have l: "ENABLED_LOGGING success_log_down_world"
    by (simp add: success_log_down_world_def example_world_def no_effects_def)
  have b: "bq_log success_log_down_world ''SUCCESS'' [] = Some ?e"
    by (simp add: success_log_down_world_def example_world_def no_effects_def)
  note r = success_log_failure_reclassified [OF t l b]
  have "fst (trigger_workflow success_log_down_world)
          = Returned (now success_log_down_world @ '',ERROR,'' @ exn_str ?e)"
    using r [THEN conjunct2, THEN conjunct2, THEN conjunct2, THEN conjunct2, THEN conjunct1]
    by (simp add: success_log_down_world_def example_world_def no_effects_def)
  moreover have "mailed (snd (trigger_workflow success_log_down_world))
                   = (if ENABLED_EMAIL success_log_down_world then mailed ?s @ [exn_str ?e]
                      else mailed ?s)"
    using r [THEN conjunct2, THEN conjunct2, THEN conjunct2, THEN conjunct1]
    by (simp add: success_log_down_world_def example_world_def no_effects_def)
  ultimately show ?thesis
    by (simp add: success_log_down_world_def example_world_def no_effects_def print_def)
qed

end
